theory Spec2Isabelle
  imports Main "HOL-Library.AList"
begin

section \<open>Data model of kubetest/main.go\<close>

text \<open>
  A Go \<open>error\<close> is modelled by its message; the nil error is \<open>None\<close> of
  \<open>error option\<close>.
\<close>

type_synonym error = string

text \<open>
  Modelled from the spec: the \<open>extractMode\<close> enumeration is declared outside main.go.
  Section 3 of the specification gives the modes of an extract entry as release archive,
  local path and stored state; \<open>load\<close> is the name main.go uses for the last one.
\<close>

datatype extractMode = release_archive | local_path | load

text \<open>\<open>extractStrategy{mode: ..., option: ...}\<close> as main.go builds it (line 298).\<close>

record extractStrategy =
  mode :: extractMode
  option :: string

type_synonym extractStrategies = "extractStrategy list"

text \<open>
  \<open>type options struct\<close> (lines 54-73). The types \<open>buildStrategy\<close> and
  \<open>stageStrategy\<close> are declared outside main.go and stay type parameters.
\<close>

record ('b, 's) options =
  build :: 'b
  charts :: bool
  checkLeaks :: bool
  checkSkew :: bool
  deployment :: string
  down :: bool
  dump :: string
  extract' :: extractStrategies
  federation :: bool
  kubemark :: bool
  publish :: string
  save :: string
  skew :: bool
  stage :: 's
  testArgs :: string
  test :: bool
  up :: bool
  upgradeArgs :: string

text \<open>
  \<open>type testCase struct\<close> and \<open>type TestSuite struct\<close> (lines 101-115), without the
  \<open>XMLName\<close> tag fields. A \<open>Time\<close> holds a duration in ticks of the logical clock
  of the model (the source stores \<open>float64\<close> seconds); \<open>SuiteTime\<close> is the field
  \<open>Time\<close> of \<open>TestSuite\<close>.
\<close>

record testCase =
  ClassName :: string
  Name :: string
  Time :: nat
  Failure :: string

record TestSuite =
  Failures :: int
  Tests :: int
  SuiteTime :: nat
  Cases :: "testCase list"

text \<open>
  The four variants \<open>getDeployer\<close> can return (lines 163-176), as tags: the structs
  behind them are declared outside main.go.
\<close>

datatype deployer = Bash | Kops | KubernetesAnywhere | NoneDeploy

text \<open>What the two writers put into their files.\<close>

datatype chunk =
    XmlHeader
  | XmlBody TestSuite
  | JsonDoc "(string \<times> string) list"

text \<open>
  Everything the modelled functions do to the outside world is an event of the trace.
  A log event carries the message or the format string of the call, not the formatted
  arguments. A file is named by its directory and its base name (the two arguments of
  \<open>filepath.Join\<close>).
\<close>

datatype event =
    LogPrint string
  | LogFatalf string
  | OsExit int
  | Prepare
  | BuildBuild
  | StageStage
  | ExtractExtract extractStrategies
  | LoadKubeconfig string
  | ValidWorkingDirectory
  | NewKops
  | NewKubernetesAnywhere
  | SignalNotify
  | GoWatcher deployer
  | Run deployer
  | SaveState string
  | Publish string
  | FedDown
  | Down deployer
  | FindVersion
  | XmlMarshalIndent TestSuite
  | OsCreate string string
  | FileWrite string string chunk
  | FileClose string string

subsection \<open>Timers\<close>

text \<open>
  A \<open>time.Timer\<close>: \<open>armed\<close> holds the duration while the timer is pending, \<open>chan\<close> says
  whether a fire value waits in the one-slot channel \<open>C\<close>.
\<close>

record timer =
  armed :: "int option"
  chan :: bool

definition NewTimer :: "int \<Rightarrow> timer" where
  "NewTimer d = \<lparr>armed = Some d, chan = False\<rparr>"

text \<open>The runtime fires a pending timer: the timer expires and its value is sent on \<open>C\<close>.\<close>

definition fire :: "timer \<Rightarrow> timer" where
  "fire t = (if armed t \<noteq> None then t\<lparr>armed := None, chan := True\<rparr> else t)"

text \<open>\<open>t.Stop()\<close>: true iff the call stopped a pending timer.\<close>

definition Stop :: "timer \<Rightarrow> bool \<times> timer" where
  "Stop t = (armed t \<noteq> None, t\<lparr>armed := None\<rparr>)"

text \<open>
  \<open><-t.C\<close>: takes the waiting value; with no value waiting it waits for a pending timer
  to fire, and blocks for ever (\<open>None\<close>) when the timer is not pending either.
\<close>

definition recv :: "timer \<Rightarrow> timer option" where
  "recv t =
     (if chan t then Some (t\<lparr>chan := False\<rparr>)
      else if armed t \<noteq> None then Some (t\<lparr>armed := None\<rparr>)
      else None)"

definition Reset :: "int \<Rightarrow> timer \<Rightarrow> timer" where
  "Reset d t = t\<lparr>armed := Some d\<rparr>"

subsection \<open>Process state and environment\<close>

text \<open>
  The package-level variables of lines 35-43 and 117 that the modelled functions use,
  the logical clock and the trace.
\<close>

record world =
  interrupt :: timer
  terminate :: timer
  verbose :: bool
  timeout :: int
  deprecatedVersionSkew :: bool
  suite :: TestSuite
  now :: nat
  trace :: "event list"

text \<open>
  The environment of one run: what every external call returns and how long it takes,
  and the functions of this package and of the Go library that are declared outside
  main.go.
\<close>

record ('b, 's) env =
  returns :: "event \<Rightarrow> error option"
  takes :: "event \<Rightarrow> nat"
  buildEnabled :: "'b \<Rightarrow> bool"
  stageEnabled :: "'s \<Rightarrow> bool"
  extractEnabled :: "extractStrategies \<Rightarrow> bool"
  flagParse :: "('b, 's) options \<times> world \<Rightarrow> int + ('b, 's) options \<times> world"
  version :: string
  environ :: "string list"
  toLower :: "string \<Rightarrow> string"
  quote :: "string \<Rightarrow> string"
  className :: string

text \<open>An event happens: it takes its time and is recorded.\<close>

definition happen :: "('b, 's) env \<Rightarrow> event \<Rightarrow> world \<Rightarrow> world" where
  "happen env e w = w\<lparr>now := now w + takes env e, trace := trace w @ [e]\<rparr>"

text \<open>One external call: it happens and returns its error.\<close>

definition call :: "('b, 's) env \<Rightarrow> event \<Rightarrow> world \<Rightarrow> error option \<times> world" where
  "call env e w = (returns env e, happen env e w)"

definition logPrint :: "('b, 's) env \<Rightarrow> string \<Rightarrow> world \<Rightarrow> world" where
  "logPrint env msg w = happen env (LogPrint msg) w"

text \<open>\<open>log.Fatalf\<close>: prints and calls \<open>os.Exit(1)\<close>; deferred calls do not run.\<close>

definition logFatalf :: "('b, 's) env \<Rightarrow> string \<Rightarrow> world \<Rightarrow> world" where
  "logFatalf env msg w = happen env (OsExit 1) (happen env (LogFatalf msg) w)"

section \<open>getDeployer\<close>

text \<open>
  Lines 163-176. \<open>NewKops\<close> and \<open>NewKubernetesAnywhere\<close> are declared outside main.go
  with the result type \<open>(deployer, error)\<close>: their outcome is the environment's. The Go
  result \<open>(nil, err)\<close> is \<open>Inl err\<close>, the result \<open>(d, nil)\<close> is \<open>Inr d\<close>.
\<close>

definition getDeployer ::
  "('b, 's) env \<Rightarrow> string \<Rightarrow> world \<Rightarrow> (error + deployer) \<times> world" where
  "getDeployer env name w =
     (if name = ''bash'' then (Inr Bash, w)
      else if name = ''kops'' then
        (case call env NewKops w of
           (Some err, w') \<Rightarrow> (Inl err, w')
         | (None, w') \<Rightarrow> (Inr Kops, w'))
      else if name = ''kubernetes-anywhere'' then
        (case call env NewKubernetesAnywhere w of
           (Some err, w') \<Rightarrow> (Inl err, w')
         | (None, w') \<Rightarrow> (Inr KubernetesAnywhere, w'))
      else if name = ''none'' then (Inr NoneDeploy, w)
      else (Inl (''Unknown deployment strategy '' @ quote env name), w))"

section \<open>Acquiring the binaries\<close>

text \<open>
  Modelled from the spec: \<open>xmlWrap\<close> is declared outside main.go. Section 4.3 says that
  the orchestrator wraps the call so that its duration and outcome are appended to the
  result report under the strategy's name regardless of success or failure, and that the
  failure propagates after it is recorded; section 8 says that the failure count is the
  number of failed records and the total count the number of records. The wrapped function
  works on the options (which the closure of line 290 assigns to) and the world.
\<close>

definition xmlWrap ::
  "('b, 's) env \<Rightarrow> string \<Rightarrow>
   (('b, 's) options \<times> world \<Rightarrow> error option \<times> ('b, 's) options \<times> world) \<Rightarrow>
   ('b, 's) options \<times> world \<Rightarrow> error option \<times> ('b, 's) options \<times> world" where
  "xmlWrap env name f st =
     (let start = now (snd st);
          (err, opts, w) = f st;
          c = \<lparr>ClassName = className env, Name = name, Time = now w - start,
               Failure = (case err of None \<Rightarrow> [] | Some e \<Rightarrow> e)\<rparr>;
          s = suite w
      in (err, opts,
          w\<lparr>suite := s\<lparr>Failures := Failures s + (if err = None then 0 else 1),
                         Tests := Tests s + 1,
                         Cases := Cases s @ [c]\<rparr>\<rparr>))"

text \<open>The closure of lines 290-308.\<close>

definition extractClosure ::
  "('b, 's) env \<Rightarrow> ('b, 's) options \<times> world \<Rightarrow> error option \<times> ('b, 's) options \<times> world" where
  "extractClosure env st =
     (let (opts, w) = st;
          (opts1, w1) =
            (if save opts \<noteq> [] then
               (if \<not> up opts then
                  (opts\<lparr>extract' := [\<lparr>mode = load, option = save opts\<rparr>]\<rparr>,
                   logPrint env
                     ''Overwriting extract strategy to load kubeconfig and version from %s'' w)
                else if federation opts \<and> up opts \<and> deployment opts = ''none'' then
                  (opts,
                   happen env (LoadKubeconfig (save opts))
                     (logPrint env ''Load kubeconfig from %s'' w))
                else (opts, w))
             else (opts, w));
          (err, w2) = call env (ExtractExtract (extract' opts1)) w1
      in (err, opts1, w2))"

text \<open>Lines 273-314.\<close>

definition acquireKubernetes ::
  "('b, 's) env \<Rightarrow> ('b, 's) options \<times> world \<Rightarrow> error option \<times> ('b, 's) options \<times> world" where
  "acquireKubernetes env st =
     (case (if buildEnabled env (build (fst st))
            then xmlWrap env ''Build''
                   (\<lambda>(opts, w). let (err, w') = call env BuildBuild w in (err, opts, w')) st
            else (None, st)) of
        (Some err, st1) \<Rightarrow> (Some err, st1)
      | (None, st1) \<Rightarrow>
     (case (if stageEnabled env (stage (fst st1))
            then xmlWrap env ''Stage''
                   (\<lambda>(opts, w). let (err, w') = call env StageStage w in (err, opts, w')) st1
            else (None, st1)) of
        (Some err, st2) \<Rightarrow> (Some err, st2)
      | (None, st2) \<Rightarrow>
     (if extractEnabled env (extract' (fst st2))
      then (case xmlWrap env ''Extract'' (extractClosure env) st2 of
              (Some err, st3) \<Rightarrow> (Some err, st3)
            | (None, st3) \<Rightarrow> (None, st3))
      else (None, st2))))"

section \<open>Writing the report and the metadata\<close>

text \<open>
  How a modelled function ends: it returns, the process exits (\<open>os.Exit\<close>), it panics,
  or it blocks for ever.
\<close>

datatype 'a outcome = Returned 'a | Exited int | Panicked | Blocked

text \<open>Lines 135-154. \<open>log.Fatalf\<close> ends the process, so the deferred \<open>f.Close()\<close> runs
  only on the last path.\<close>

definition writeXML ::
  "('b, 's) env \<Rightarrow> string \<Rightarrow> nat \<Rightarrow> world \<Rightarrow> unit outcome \<times> world" where
  "writeXML env dir start w =
     (let w1 = w\<lparr>suite := (suite w)\<lparr>SuiteTime := now w - start\<rparr>\<rparr> in
      case call env (XmlMarshalIndent (suite w1)) w1 of
        (Some err, w2) \<Rightarrow> (Exited 1, logFatalf env ''Could not marshal XML: %s'' w2)
      | (None, w2) \<Rightarrow>
     (case call env (OsCreate dir ''junit_runner.xml'') w2 of
        (Some err, w3) \<Rightarrow> (Exited 1, logFatalf env ''Could not create file: %s'' w3)
      | (None, w3) \<Rightarrow>
     (case call env (FileWrite dir ''junit_runner.xml'' XmlHeader) w3 of
        (Some err, w4) \<Rightarrow> (Exited 1, logFatalf env ''Error writing XML header: %s'' w4)
      | (None, w4) \<Rightarrow>
     (case call env (FileWrite dir ''junit_runner.xml'' (XmlBody (suite w1))) w4 of
        (Some err, w5) \<Rightarrow> (Exited 1, logFatalf env ''Error writing XML data: %s'' w5)
      | (None, w5) \<Rightarrow>
          (Returned (),
           happen env (FileClose dir ''junit_runner.xml'')
             (logPrint env ''Saved XML output to %s.'' w5))))))"

text \<open>\<open>strings.SplitN(e, "=", 2)\<close>: cut at the first \<open>=\<close>, if there is one.\<close>

definition splitN2 :: "string \<Rightarrow> string list" where
  "splitN2 e =
     (case dropWhile (\<lambda>c. c \<noteq> CHR ''='') e of
        [] \<Rightarrow> [e]
      | _ # rest \<Rightarrow> [takeWhile (\<lambda>c. c \<noteq> CHR ''='') e, rest])"

text \<open>
  \<open>re.FindStringSubmatch\<close> for \<open>^BUILD_METADATA_(.+)$\<close>: the submatch, when the whole
  name is the prefix followed by at least one character, none of them a newline.
\<close>

definition findBuildMetadata :: "string \<Rightarrow> string option" where
  "findBuildMetadata name =
     (let pre = ''BUILD_METADATA_''; r = drop (length pre) name
      in if take (length pre) name = pre \<and> r \<noteq> [] \<and> CHR 0x0A \<notin> set r
         then Some r else None)"

text \<open>
  The loop of lines 348-356 over \<open>os.Environ()\<close>; \<open>None\<close> is the index panic of
  \<open>p[1]\<close> on a matching entry without \<open>=\<close>.
\<close>

fun metadataLoop ::
  "('b, 's) env \<Rightarrow> string list \<Rightarrow> (string \<times> string) list \<Rightarrow> (string \<times> string) list option" where
  "metadataLoop env [] m = Some m"
| "metadataLoop env (e # es) m =
     (case splitN2 e of
        [] \<Rightarrow> None
      | p0 # ps \<Rightarrow>
          (case findBuildMetadata p0 of
             None \<Rightarrow> metadataLoop env es m
           | Some r1 \<Rightarrow>
               (case ps of
                  [] \<Rightarrow> None
                | v # _ \<Rightarrow> metadataLoop env es (AList.update (toLower env r1) v m))))"

text \<open>
  Lines 342-364. \<open>findVersion\<close> (lines 317-339) probes the file system; it is one call
  whose value is the environment's \<open>version\<close>.
\<close>

definition writeMetadata ::
  "('b, 's) env \<Rightarrow> string \<Rightarrow> world \<Rightarrow> error option outcome \<times> world" where
  "writeMetadata env path w =
     (let w1 = happen env FindVersion w;
          ver = version env;
          m0 = AList.update ''job-version'' ver (AList.update ''version'' ver [])
      in case metadataLoop env (environ env) m0 of
           None \<Rightarrow> (Panicked, w1)
         | Some m \<Rightarrow>
             (case call env (OsCreate path ''metadata.json'') w1 of
                (Some err, w2) \<Rightarrow> (Returned (Some err), w2)
              | (None, w2) \<Rightarrow>
                  (let (err, w3) = call env (FileWrite path ''metadata.json'' (JsonDoc m)) w2
                   in (Returned err, happen env (FileClose path ''metadata.json'') w3))))"

section \<open>The teardown watcher\<close>

text \<open>The body of the loop of lines 230-244, run for one received signal.\<close>

definition handleSignal ::
  "('b, 's) env \<Rightarrow> ('b, 's) options \<Rightarrow> deployer \<Rightarrow> world \<Rightarrow> unit outcome \<times> world" where
  "handleSignal env opts deploy w =
     (let w1 = logPrint env ''Captured ^C, gracefully attempting to cleanup resources..'' w;
          (fedErr, w2) =
            (if federation opts then
               (case call env FedDown w1 of
                  (Some e, w') \<Rightarrow> (Some e, logPrint env ''Tearing down federation failed: %v'' w')
                | (None, w') \<Rightarrow> (None, w'))
             else (None, w1));
          (err, w3) =
            (case call env (Down deploy) w2 of
               (Some e, w') \<Rightarrow> (Some e, logPrint env ''Tearing down deployment failed: %v'' w')
             | (None, w') \<Rightarrow> (None, w'))
      in if fedErr \<noteq> None \<or> err \<noteq> None
         then (Exited 1, happen env (OsExit 1) w3)
         else (Returned (), w3))"

text \<open>
  The goroutine of lines 229-245, \<open>for range c\<close>: the signals are handled one after the
  other, each in the environment of its moment. The channel is never closed: when no
  signal is left the goroutine waits (\<open>Blocked\<close>).
\<close>

fun watcher ::
  "('b, 's) env list \<Rightarrow> ('b, 's) options \<Rightarrow> deployer \<Rightarrow> world \<Rightarrow> unit outcome \<times> world" where
  "watcher [] opts deploy w = (Blocked, w)"
| "watcher (env # envs) opts deploy w =
     (case handleSignal env opts deploy w of
        (Returned u, w') \<Rightarrow> watcher envs opts deploy w'
      | (out, w') \<Rightarrow> (out, w'))"

section \<open>complete\<close>

text \<open>\<open>if !t.Stop() { <-t.C }\<close> (lines 193-198).\<close>

definition stopAndDrain :: "timer \<Rightarrow> timer option" where
  "stopAndDrain t = (let (stopped, t') = Stop t in if \<not> stopped then recv t' else Some t')"

text \<open>Lines 193-203; \<open>None\<close> when a receive blocks for ever.\<close>

definition completeTimers :: "('b, 's) env \<Rightarrow> world \<Rightarrow> world option" where
  "completeTimers env w =
     (case stopAndDrain (terminate w) of
        None \<Rightarrow> None
      | Some t \<Rightarrow>
     (case stopAndDrain (interrupt w) of
        None \<Rightarrow> None
      | Some i \<Rightarrow>
          (let w1 = w\<lparr>interrupt := i, terminate := t\<rparr> in
           Some (if timeout w1 > 0
                 then (logPrint env ''Limiting testing to %s'' w1)
                        \<lparr>interrupt := Reset (timeout w1) i\<rparr>
                 else w1))))"

text \<open>
  \<open>complete\<close> is modelled in the segments of its text. \<open>prepare\<close>,
  \<open>validWorkingDirectory\<close> and \<open>publish\<close> are one call each; \<open>run\<close>, \<open>saveState\<close>,
  \<open>FedDown\<close> and the deployers are declared outside main.go.

  Lines 209-223: up to the selection of the deployer.
\<close>

definition completeSetup ::
  "('b, 's) env \<Rightarrow> ('b, 's) options \<times> world \<Rightarrow> (error + deployer) \<times> ('b, 's) options \<times> world" where
  "completeSetup env st =
     (let (opts0, w0) = st in
      case call env Prepare w0 of
        (Some err, w1) \<Rightarrow> (Inl (''failed to prepare test environment: '' @ err), opts0, w1)
      | (None, w1) \<Rightarrow>
     (case acquireKubernetes env (opts0, w1) of
        (Some err, opts, w2) \<Rightarrow> (Inl (''failed to acquire k8s binaries: '' @ err), opts, w2)
      | (None, opts, w2) \<Rightarrow>
     (case call env ValidWorkingDirectory w2 of
        (Some err, w3) \<Rightarrow> (Inl (''called from invalid working directory: '' @ err), opts, w3)
      | (None, w3) \<Rightarrow>
     (case getDeployer env (deployment opts) w3 of
        (Inl err, w4) \<Rightarrow> (Inl (''error creating deployer: '' @ err), opts, w4)
      | (Inr deploy, w4) \<Rightarrow> (Inr deploy, opts, w4)))))"

text \<open>
  Lines 225-246: the watcher is registered. Starting the goroutine is the event
  \<open>GoWatcher\<close>; what the goroutine does is \<open>watcher\<close>.
\<close>

definition registerWatcher ::
  "('b, 's) env \<Rightarrow> ('b, 's) options \<Rightarrow> deployer \<Rightarrow> world \<Rightarrow> world" where
  "registerWatcher env opts deploy w =
     (if down opts then happen env (GoWatcher deploy) (happen env SignalNotify w) else w)"

text \<open>Lines 248-270: the run, the saved state, the published version.\<close>

definition runSavePublish ::
  "('b, 's) env \<Rightarrow> ('b, 's) options \<Rightarrow> deployer \<Rightarrow> world \<Rightarrow> error option \<times> world" where
  "runSavePublish env opts deploy w5 =
     (let w6 = logPrint env ''before run(deploy, *o)'' w5
      in case call env (Run deploy) w6 of
           (Some err, w7) \<Rightarrow> (Some err, w7)
         | (None, w7) \<Rightarrow>
     (let w8 = logPrint env ''after run(deploy, *o)'' w7
      in case (if save opts \<noteq> [] \<and>
                  ((\<not> down opts \<and> up opts) \<or>
                   (\<not> federation opts \<and> up opts \<and> deployment opts \<noteq> ''none''))
               then call env (SaveState (save opts)) w8
               else (None, w8)) of
           (Some err, w9) \<Rightarrow> (Some err, w9)
         | (None, w9) \<Rightarrow>
     (case (if publish opts \<noteq> [] then call env (Publish (publish opts)) w9 else (None, w9)) of
        (Some err, w10) \<Rightarrow> (Some err, w10)
      | (None, w10) \<Rightarrow> (None, w10))))"

text \<open>Lines 209-270, the part of \<open>complete\<close> the deferred writers wait for.\<close>

definition completeBody ::
  "('b, 's) env \<Rightarrow> ('b, 's) options \<times> world \<Rightarrow> error option \<times> ('b, 's) options \<times> world" where
  "completeBody env st =
     (case completeSetup env st of
        (Inl err, opts, w) \<Rightarrow> (Some err, opts, w)
      | (Inr deploy, opts, w4) \<Rightarrow>
          (let (err, w) = runSavePublish env opts deploy (registerWatcher env opts deploy w4)
           in (err, opts, w)))"

text \<open>
  Lines 191-271. The two \<open>defer\<close> statements of lines 205-208 take their arguments
  (\<open>o.dump\<close>, \<open>time.Now()\<close>) when they are reached and run last in, first out when the
  body has returned: \<open>writeXML\<close>, then \<open>writeMetadata\<close>, whose result is dropped.
  This is the main flow alone: a timer that fires or a signal that arrives while it runs
  is not part of it.
\<close>

definition complete ::
  "('b, 's) env \<Rightarrow> ('b, 's) options \<Rightarrow> world \<Rightarrow> error option outcome \<times> ('b, 's) options \<times> world" where
  "complete env opts0 w0 =
     (case completeTimers env w0 of
        None \<Rightarrow> (Blocked, opts0, w0)
      | Some w1 \<Rightarrow>
          (let dir = dump opts0;
               start = now w1;
               (err, opts, w2) = completeBody env (opts0, w1)
           in if dir \<noteq> [] then
                (case writeXML env dir start w2 of
                   (Returned u, w3) \<Rightarrow>
                     (case writeMetadata env dir w3 of
                        (Returned e, w4) \<Rightarrow> (Returned err, opts, w4)
                      | (Exited c, w4) \<Rightarrow> (Exited c, opts, w4)
                      | (Panicked, w4) \<Rightarrow> (Panicked, opts, w4)
                      | (Blocked, w4) \<Rightarrow> (Blocked, opts, w4))
                 | (Exited c, w3) \<Rightarrow> (Exited c, opts, w3)
                 | (Panicked, w3) \<Rightarrow> (Panicked, opts, w3)
                 | (Blocked, w3) \<Rightarrow> (Blocked, opts, w3))
              else (Returned err, opts, w2)))"

section \<open>main\<close>

text \<open>
  \<open>defineFlags\<close> (lines 75-99): the options with the default of every flag; the two
  arguments are the zero values of the build and stage strategies.
\<close>

definition defineFlags :: "'b \<Rightarrow> 's \<Rightarrow> ('b, 's) options" where
  "defineFlags zb zs =
     \<lparr>build = zb, charts = False, checkLeaks = False, checkSkew = True,
      deployment = ''bash'', down = False, dump = [], extract' = [],
      federation = False, kubemark = False, publish = [], save = [], skew = False,
      stage = zs, testArgs = [], test = False, up = False, upgradeArgs = []\<rparr>"

text \<open>The package-level variables as lines 35-43 and 117 initialise them.\<close>

definition initWorld :: world where
  "initWorld =
     \<lparr>interrupt = NewTimer 0, terminate = NewTimer 0, verbose = False, timeout = 0,
      deprecatedVersionSkew = True,
      suite = \<lparr>Failures = 0, Tests = 0, SuiteTime = 0, Cases = []\<rparr>,
      now = 0, trace = []\<rparr>"




section \<open>Observing a run\<close>

text \<open>The events a step adds to the trace, and the records it adds to the report.\<close>

definition emitted :: "world \<Rightarrow> world \<Rightarrow> event list" where
  "emitted w w' = drop (length (trace w)) (trace w')"

definition recorded :: "world \<Rightarrow> world \<Rightarrow> testCase list" where
  "recorded w w' = drop (length (Cases (suite w))) (Cases (suite w'))"

text \<open>The \<open>execute\<close> operations of the three strategies.\<close>

fun isExecute :: "event \<Rightarrow> bool" where
  "isExecute BuildBuild = True"
| "isExecute StageStage = True"
| "isExecute (ExtractExtract s) = True"
| "isExecute e = False"

text \<open>
  The specification's description of the acquisition, sections 4.3 and 4.5 (3): the
  strategies run in the order of the list, each only when it is enabled, and a failing
  one aborts the rest. The result is the executions in their order, the names recorded,
  and the error returned.
\<close>

fun runInOrder ::
  "('b, 's) env \<Rightarrow> (string \<times> bool \<times> event) list \<Rightarrow> event list \<times> string list \<times> error option" where
  "runInOrder env [] = ([], [], None)"
| "runInOrder env ((name, enabled, exec) # rest) =
     (if \<not> enabled then runInOrder env rest
      else case returns env exec of
             Some err \<Rightarrow> ([exec], [name], Some err)
           | None \<Rightarrow> (let (es, ns, r) = runInOrder env rest in (exec # es, name # ns, r)))"

text \<open>The extract specification that \<open>o.extract.Extract()\<close> of line 307 works on.\<close>

definition extractSpec :: "('b, 's) options \<Rightarrow> extractStrategies" where
  "extractSpec opts =
     (if save opts \<noteq> [] \<and> \<not> up opts then [\<lparr>mode = load, option = save opts\<rparr>]
      else extract' opts)"

definition strategies :: "('b, 's) env \<Rightarrow> ('b, 's) options \<Rightarrow> (string \<times> bool \<times> event) list" where
  "strategies env opts =
     [(''Build'', buildEnabled env (build opts), BuildBuild),
      (''Stage'', stageEnabled env (stage opts), StageStage),
      (''Extract'', extractEnabled env (extract' opts), ExtractExtract (extractSpec opts))]"

text \<open>Build or Stage is enabled and fails, so that acquisition stops before Extract.\<close>

definition stopsEarly :: "('b, 's) env \<Rightarrow> ('b, 's) options \<Rightarrow> bool" where
  "stopsEarly env opts =
     ((buildEnabled env (build opts) \<and> returns env BuildBuild \<noteq> None) \<or>
      (stageEnabled env (stage opts) \<and> returns env StageStage \<noteq> None))"

text \<open>The operations on the files of the two writers.\<close>

fun isFileEvent :: "event \<Rightarrow> bool" where
  "isFileEvent (OsCreate d f) = True"
| "isFileEvent (FileWrite d f c) = True"
| "isFileEvent (FileClose d f) = True"
| "isFileEvent e = False"

text \<open>The teardown of one signal fails: the condition of line 241.\<close>

definition teardownFails :: "('b, 's) env \<Rightarrow> ('b, 's) options \<Rightarrow> deployer \<Rightarrow> bool" where
  "teardownFails env opts deploy =
     ((federation opts \<and> returns env FedDown \<noteq> None) \<or> returns env (Down deploy) \<noteq> None)"

text \<open>The two teardown operations of the watcher.\<close>

fun isTeardown :: "event \<Rightarrow> bool" where
  "isTeardown FedDown = True"
| "isTeardown (Down d) = True"
| "isTeardown e = False"

text \<open>
  The number of signals the watcher handles: those before the first whose teardown
  fails, and that one.
\<close>

fun handled :: "('b, 's) env list \<Rightarrow> ('b, 's) options \<Rightarrow> deployer \<Rightarrow> nat" where
  "handled [] opts deploy = 0"
| "handled (env # envs) opts deploy =
     (if teardownFails env opts deploy then 1 else Suc (handled envs opts deploy))"

text \<open>The events of the acquisition (lines 273-314).\<close>

fun isAcquireEvent :: "event \<Rightarrow> bool" where
  "isAcquireEvent BuildBuild = True"
| "isAcquireEvent StageStage = True"
| "isAcquireEvent (ExtractExtract s) = True"
| "isAcquireEvent (LoadKubeconfig p) = True"
| "isAcquireEvent (LogPrint m) =
     (m = ''Overwriting extract strategy to load kubeconfig and version from %s'' \<or>
      m = ''Load kubeconfig from %s'')"
| "isAcquireEvent e = False"

text \<open>The events before the deployer is selected (lines 209-223).\<close>

fun isSetupEvent :: "event \<Rightarrow> bool" where
  "isSetupEvent Prepare = True"
| "isSetupEvent ValidWorkingDirectory = True"
| "isSetupEvent NewKops = True"
| "isSetupEvent NewKubernetesAnywhere = True"
| "isSetupEvent e = isAcquireEvent e"

text \<open>The events of the two deferred writers.\<close>

fun isWriterEvent :: "event \<Rightarrow> bool" where
  "isWriterEvent (XmlMarshalIndent s) = True"
| "isWriterEvent FindVersion = True"
| "isWriterEvent (LogFatalf m) = True"
| "isWriterEvent (OsExit c) = True"
| "isWriterEvent (LogPrint m) = (m = ''Saved XML output to %s.'')"
| "isWriterEvent e = isFileEvent e"

text \<open>The condition of line 258 under which the state is saved.\<close>

definition saveWanted :: "('b, 's) options \<Rightarrow> bool" where
  "saveWanted opts =
     (save opts \<noteq> [] \<and>
      ((\<not> down opts \<and> up opts) \<or>
       (\<not> federation opts \<and> up opts \<and> deployment opts \<noteq> ''none'')))"

text \<open>
  The events of lines 225-270 with the deployer \<open>d\<close>: the registration, the run, the
  saved state and the published version.
\<close>

definition tailEvents :: "('b, 's) env \<Rightarrow> ('b, 's) options \<Rightarrow> deployer \<Rightarrow> event list" where
  "tailEvents env opts d =
     (if down opts then [SignalNotify, GoWatcher d] else []) @
     [LogPrint ''before run(deploy, *o)'', Run d] @
     (if returns env (Run d) \<noteq> None then []
      else LogPrint ''after run(deploy, *o)'' #
           (if saveWanted opts then [SaveState (save opts)] else []) @
           (if saveWanted opts \<and> returns env (SaveState (save opts)) \<noteq> None then []
            else if publish opts \<noteq> [] then [Publish (publish opts)] else []))"

section \<open>Example runs\<close>

text \<open>
  An environment in which every call succeeds and takes one tick; a strategy value is
  its own enabled flag, and an extract specification is enabled when it has an entry.
\<close>

definition asciiLower :: "string \<Rightarrow> string" where
  "asciiLower s =
     map (\<lambda>c. let n = (of_char c :: nat) in if 65 \<le> n \<and> n \<le> 90 then char_of (n + 32) else c) s"

definition envOK :: "(bool, bool) env" where
  "envOK =
     \<lparr>returns = (\<lambda>e. None), takes = (\<lambda>e. 1),
      buildEnabled = (\<lambda>b. b), stageEnabled = (\<lambda>s. s), extractEnabled = (\<lambda>xs. xs \<noteq> []),
      flagParse = Inr, version = ''v1.6.0'',
      environ = [''BUILD_METADATA_REPO=k8s'', ''HOME=/root''],
      toLower = asciiLower, quote = (\<lambda>s. CHR 0x22 # s @ [CHR 0x22]),
      className = ''e2e.go''\<rparr>"

text \<open>The same environment with one failing call.\<close>

definition envFail :: "event \<Rightarrow> error \<Rightarrow> (bool, bool) env" where
  "envFail bad err = envOK\<lparr>returns := (\<lambda>e. if e = bad then Some err else None)\<rparr>"

text \<open>The default options with a release to extract.\<close>

definition optsRelease :: "(bool, bool) options" where
  "optsRelease = (defineFlags False False)\<lparr>extract' := [\<lparr>mode = release_archive, option = ''v1.6.0''\<rparr>]\<rparr>"

text \<open>Build and Stage enabled; the upload of Stage fails.\<close>

definition envStageFails :: "(bool, bool) env" where
  "envStageFails = envFail StageStage ''upload failed''"

definition optsBuildStage :: "(bool, bool) options" where
  "optsBuildStage = optsRelease\<lparr>build := True, stage := True\<rparr>"

text \<open>A run that restores the state of an earlier \<open>--up\<close>: \<open>--save\<close> without \<open>--up\<close>.\<close>

definition optsRestore :: "(bool, bool) options" where
  "optsRestore = optsRelease\<lparr>save := ''gs://bucket/state''\<rparr>"

text \<open>
  Runs that bring up the federation control plane only, without and with a save path.
\<close>

definition optsFedOnly :: "(bool, bool) options" where
  "optsFedOnly = optsRelease\<lparr>federation := True, up := True, deployment := ''none''\<rparr>"

definition optsFedSaved :: "(bool, bool) options" where
  "optsFedSaved = optsFedOnly\<lparr>save := ''gs://bucket/state''\<rparr>"

text \<open>An environment in which a log line takes 2 ticks and an extraction 3.\<close>

definition envSlow :: "(bool, bool) env" where
  "envSlow =
     envOK\<lparr>takes := (\<lambda>e. case e of LogPrint m \<Rightarrow> 2 | ExtractExtract s \<Rightarrow> 3 | _ \<Rightarrow> 1)\<rparr>"

text \<open>The constructor of the kops deployer fails.\<close>

definition envKopsFails :: "(bool, bool) env" where
  "envKopsFails = envFail NewKops ''--kops-cluster must be set''"


definition firedWorld :: world where
  "firedWorld = initWorld\<lparr>interrupt := fire (NewTimer 0), terminate := fire (NewTimer 0)\<rparr>"

text \<open>A run with \<open>--up --down\<close>, and the same with federation.\<close>

definition optsUpDown :: "(bool, bool) options" where
  "optsUpDown = optsRelease\<lparr>up := True, down := True\<rparr>"



text \<open>
  Federation control plane only, with a save path and \<open>--down\<close>; and a run that turns
  the clusters up and down again with a save path and no federation.
\<close>

definition optsFedDown :: "(bool, bool) options" where
  "optsFedDown = optsFedSaved\<lparr>down := True\<rparr>"

definition optsUpDownSaved :: "(bool, bool) options" where
  "optsUpDownSaved = optsUpDown\<lparr>save := ''gs://bucket/state''\<rparr>"

text \<open>A run that brings a cluster up and leaves it up, with a save path.\<close>

definition optsUpSaved :: "(bool, bool) options" where
  "optsUpSaved = optsRelease\<lparr>up := True, save := ''gs://bucket/state''\<rparr>"

text \<open>
  A run with an output directory; with it, an environment in which \<open>prepare\<close> fails and
  one in which the report file cannot be created.
\<close>

definition optsDump :: "(bool, bool) options" where
  "optsDump = optsRelease\<lparr>dump := ''/workspace/_artifacts''\<rparr>"

definition envPrepareFails :: "(bool, bool) env" where
  "envPrepareFails = envFail Prepare ''PROJECT is not set''"

definition envCreateFails :: "(bool, bool) env" where
  "envCreateFails =
     envFail (OsCreate ''/workspace/_artifacts'' ''junit_runner.xml'')
       ''no such file or directory''"

section \<open>Basic facts\<close>

lemma happen_simps [simp]:
  "trace (happen env e w) = trace w @ [e]"
  "now (happen env e w) = now w + takes env e"
  "suite (happen env e w) = suite w"
  "interrupt (happen env e w) = interrupt w"
  "terminate (happen env e w) = terminate w"
  "timeout (happen env e w) = timeout w"
  by (simp_all add: happen_def)

lemma logPrint_simps [simp]:
  "trace (logPrint env m w) = trace w @ [LogPrint m]"
  "now (logPrint env m w) = now w + takes env (LogPrint m)"
  "suite (logPrint env m w) = suite w"
  "interrupt (logPrint env m w) = interrupt w"
  "terminate (logPrint env m w) = terminate w"
  "timeout (logPrint env m w) = timeout w"
  by (simp_all add: logPrint_def)

lemma drop_length_append [simp]: "drop (length xs) (xs @ ys) = ys"
  by simp

lemma take_length_append [simp]: "take (length xs) (xs @ ys) = xs"
  by simp

lemma stopAndDrain_fresh:
  "t \<in> {NewTimer d, fire (NewTimer d)} \<Longrightarrow>
   stopAndDrain t = Some \<lparr>armed = None, chan = False\<rparr>"
  by (auto simp: stopAndDrain_def Stop_def recv_def NewTimer_def fire_def)

lemmas acquire_defs = acquireKubernetes_def xmlWrap_def extractClosure_def call_def Let_def

section \<open>Selecting the deployer\<close>

text \<open>
  \<open>getDeployer\<close> does not return a handle for every name of the closed set: for
  \<open>kops\<close> it returns what \<open>NewKops\<close> returns, and that constructor has an error result.
\<close>

theorem getDeployer_kops_counterexample:
  "''kops'' \<in> {''bash'', ''kops'', ''kubernetes-anywhere'', ''none''} \<and>
   fst (getDeployer envKopsFails ''kops'' initWorld) = Inl ''--kops-cluster must be set''"
  by code_simp

text \<open>
  C6, as the code has it: \<open>bash\<close> and \<open>none\<close> always give a handle and no error;
  \<open>kops\<close> and \<open>kubernetes-anywhere\<close> give the handle of their constructor when it
  succeeds and its error, with no handle, when it fails; every other name gives no handle
  and the error naming the unknown deployment strategy.
\<close>

theorem getDeployer_cases:
  "fst (getDeployer env ''bash'' w) = Inr Bash \<and>
   fst (getDeployer env ''none'' w) = Inr NoneDeploy \<and>
   fst (getDeployer env ''kops'' w) =
     (case returns env NewKops of None \<Rightarrow> Inr Kops | Some err \<Rightarrow> Inl err) \<and>
   fst (getDeployer env ''kubernetes-anywhere'' w) =
     (case returns env NewKubernetesAnywhere of
        None \<Rightarrow> Inr KubernetesAnywhere | Some err \<Rightarrow> Inl err) \<and>
   (name \<notin> {''bash'', ''kops'', ''kubernetes-anywhere'', ''none''} \<longrightarrow>
      fst (getDeployer env name w) = Inl (''Unknown deployment strategy '' @ quote env name))"
  by (simp add: getDeployer_def call_def split: option.splits)

theorem getDeployer_cases_witness:
  "fst (getDeployer envOK ''kops'' initWorld) = Inr Kops \<and>
   ''gke'' \<notin> {''bash'', ''kops'', ''kubernetes-anywhere'', ''none''} \<and>
   fst (getDeployer envOK ''gke'' initWorld) =
     Inl (''Unknown deployment strategy '' @ [CHR 0x22] @ ''gke'' @ [CHR 0x22])"
  using getDeployer_cases [of envOK initWorld "''gke''"]
  by (simp add: envOK_def)

section \<open>The timers at the start of a run\<close>

text \<open>
  C8: at the start of a run each of the two timers is as line 37 or 39 made it, fired
  or not yet. \<open>complete\<close> then stops both and drains the value of a fired one, so that
  no value is left in either channel; the interrupt timer is armed again with the
  timeout exactly when the timeout is positive, and otherwise both timers are idle.
\<close>

theorem completeTimers_drains:
  assumes "terminate w \<in> {NewTimer 0, fire (NewTimer 0)}"
      and "interrupt w \<in> {NewTimer 0, fire (NewTimer 0)}"
  shows "\<exists>w'. completeTimers env w = Some w' \<and>
           terminate w' = \<lparr>armed = None, chan = False\<rparr> \<and>
           interrupt w' =
             \<lparr>armed = (if timeout w > 0 then Some (timeout w) else None), chan = False\<rparr>"
  using assms
  by (auto simp: completeTimers_def stopAndDrain_fresh Reset_def)

theorem completeTimers_drains_witness:
  "\<exists>w'. completeTimers envOK (firedWorld\<lparr>timeout := 30\<rparr>) = Some w' \<and>
     terminate w' = \<lparr>armed = None, chan = False\<rparr> \<and>
     interrupt w' = \<lparr>armed = Some 30, chan = False\<rparr>"
  using completeTimers_drains [of "firedWorld\<lparr>timeout := 30\<rparr>" envOK]
  by (simp add: firedWorld_def initWorld_def)

section \<open>The deprecated flag\<close>



section \<open>The order of the strategies\<close>

lemma acquire_refines_run:
  "(case acquireKubernetes env (opts, w) of (err, opts', w') \<Rightarrow>
      (filter isExecute (emitted w w'), map Name (recorded w w'), err)) =
   runInOrder env (strategies env opts)"
  apply (cases "buildEnabled env (build opts)"; cases "returns env BuildBuild";
         cases "stageEnabled env (stage opts)"; cases "returns env StageStage";
         cases "extractEnabled env (extract' opts)";
         cases "returns env (ExtractExtract (extractSpec opts))";
         cases "save opts = []"; cases "up opts";
         cases "federation opts \<and> deployment opts = ''none''")
  apply (simp_all add: acquire_defs strategies_def extractSpec_def emitted_def recorded_def)
  done

text \<open>
  C9: an acquisition does what running Build, Stage and Extract in this order does,
  each only when it is enabled and none after the first that fails: it executes the same
  strategies in the same order, records exactly their names, and returns the error of the
  one that failed.
\<close>

theorem acquire_runs_in_order:
  "acquireKubernetes env (opts, w) = (err, opts', w') \<Longrightarrow>
   runInOrder env (strategies env opts) =
     (filter isExecute (emitted w w'), map Name (recorded w w'), err)"
  using acquire_refines_run [where env = env and opts = opts and w = w] by simp

theorem acquire_runs_in_order_witness:
  "runInOrder envStageFails (strategies envStageFails optsBuildStage) =
     ([BuildBuild, StageStage], [''Build'', ''Stage''], Some ''upload failed'')"
proof -
  obtain err opts' w' where
    run: "acquireKubernetes envStageFails (optsBuildStage, initWorld) = (err, opts', w')"
    using prod_cases3 by blast
  have "filter isExecute
          (emitted initWorld
             (snd (snd (acquireKubernetes envStageFails (optsBuildStage, initWorld))))) =
        [BuildBuild, StageStage]"
    by code_simp
  moreover have
    "map Name
       (recorded initWorld
          (snd (snd (acquireKubernetes envStageFails (optsBuildStage, initWorld))))) =
     [''Build'', ''Stage'']"
    by code_simp
  moreover have
    "fst (acquireKubernetes envStageFails (optsBuildStage, initWorld)) = Some ''upload failed''"
    by code_simp
  ultimately show ?thesis
    using acquire_runs_in_order [OF run] run by simp
qed

section \<open>Restoring a saved state before the extraction\<close>

lemma extract_rewrite_run:
  assumes "save opts \<noteq> []" and "extractEnabled env (extract' opts)"
  shows "case acquireKubernetes env (opts, w) of (err, opts', w') \<Rightarrow>
   (\<not> up opts \<longrightarrow>
      (\<forall>s. ExtractExtract s \<in> set (emitted w w') \<longrightarrow>
           s = [\<lparr>mode = load, option = save opts\<rparr>]) \<and>
      (\<not> stopsEarly env opts \<longrightarrow>
         extract' opts' = [\<lparr>mode = load, option = save opts\<rparr>] \<and>
         emitted w w' =
           (if buildEnabled env (build opts) then [BuildBuild] else []) @
           (if stageEnabled env (stage opts) then [StageStage] else []) @
           [LogPrint ''Overwriting extract strategy to load kubeconfig and version from %s'',
            ExtractExtract [\<lparr>mode = load, option = save opts\<rparr>]])) \<and>
   (up opts \<and> federation opts \<and> deployment opts = ''none'' \<and> \<not> stopsEarly env opts \<longrightarrow>
      opts' = opts \<and>
      emitted w w' =
        (if buildEnabled env (build opts) then [BuildBuild] else []) @
        (if stageEnabled env (stage opts) then [StageStage] else []) @
        [LogPrint ''Load kubeconfig from %s'', LoadKubeconfig (save opts),
         ExtractExtract (extract' opts)])"
  using assms
  apply (cases "buildEnabled env (build opts)"; cases "returns env BuildBuild";
         cases "stageEnabled env (stage opts)"; cases "returns env StageStage";
         cases "returns env (ExtractExtract (extractSpec opts))";
         cases "up opts";
         cases "federation opts \<and> deployment opts = ''none''")
  apply (simp_all add: acquire_defs stopsEarly_def extractSpec_def emitted_def)
  done


text \<open>
  With federation, \<open>--up\<close> and the deployment \<open>none\<close> but no save path, the extract
  phase loads no kubeconfig: the guard of line 294 comes first.
\<close>

theorem fedOnly_without_save_counterexample:
  "federation optsFedOnly \<and> up optsFedOnly \<and> deployment optsFedOnly = ''none'' \<and>
   emitted initWorld (snd (snd (acquireKubernetes envOK (optsFedOnly, initWorld)))) =
     [ExtractExtract [\<lparr>mode = release_archive, option = ''v1.6.0''\<rparr>]]"
  by code_simp

text \<open>
  C2, as the code has it. In a run with a save path and the extract strategy enabled:
  without \<open>--up\<close>, every execution of the extract strategies works on the single entry
  that loads from the save path, and when Build and Stage do not stop the acquisition the
  rewrite is logged, the single entry is executed next and it is the extract specification
  from then on; with federation, \<open>--up\<close> and the deployment \<open>none\<close>, when Build and
  Stage do not stop the acquisition, the kubeconfig is loaded from the save path, the
  unchanged extract specification is executed next and the options stay as they were.
\<close>

theorem extract_restore_rewrite:
  assumes "acquireKubernetes env (opts, w) = (err, opts', w')"
      and "save opts \<noteq> []" and "extractEnabled env (extract' opts)"
  shows
   "(\<not> up opts \<longrightarrow>
      (\<forall>s. ExtractExtract s \<in> set (emitted w w') \<longrightarrow>
           s = [\<lparr>mode = load, option = save opts\<rparr>]) \<and>
      (\<not> stopsEarly env opts \<longrightarrow>
         extract' opts' = [\<lparr>mode = load, option = save opts\<rparr>] \<and>
         emitted w w' =
           (if buildEnabled env (build opts) then [BuildBuild] else []) @
           (if stageEnabled env (stage opts) then [StageStage] else []) @
           [LogPrint ''Overwriting extract strategy to load kubeconfig and version from %s'',
            ExtractExtract [\<lparr>mode = load, option = save opts\<rparr>]])) \<and>
    (up opts \<and> federation opts \<and> deployment opts = ''none'' \<and> \<not> stopsEarly env opts \<longrightarrow>
      opts' = opts \<and>
      emitted w w' =
        (if buildEnabled env (build opts) then [BuildBuild] else []) @
        (if stageEnabled env (stage opts) then [StageStage] else []) @
        [LogPrint ''Load kubeconfig from %s'', LoadKubeconfig (save opts),
         ExtractExtract (extract' opts)])"
  using extract_rewrite_run [OF assms(2,3), of w] unfolding assms(1) prod.case .



theorem extract_restore_rewrite_witness:
  "(\<exists>err opts' w'.
      acquireKubernetes envOK (optsRestore, initWorld) = (err, opts', w') \<and>
      save optsRestore \<noteq> [] \<and> extractEnabled envOK (extract' optsRestore) \<and>
      \<not> up optsRestore \<and> \<not> stopsEarly envOK optsRestore \<and>
      extract' opts' = [\<lparr>mode = load, option = save optsRestore\<rparr>] \<and>
      emitted initWorld w' =
        [LogPrint ''Overwriting extract strategy to load kubeconfig and version from %s'',
         ExtractExtract [\<lparr>mode = load, option = save optsRestore\<rparr>]]) \<and>
   (\<exists>err opts' w'.
      acquireKubernetes envOK (optsFedSaved, initWorld) = (err, opts', w') \<and>
      save optsFedSaved \<noteq> [] \<and> extractEnabled envOK (extract' optsFedSaved) \<and>
      up optsFedSaved \<and> federation optsFedSaved \<and> deployment optsFedSaved = ''none'' \<and>
      \<not> stopsEarly envOK optsFedSaved \<and>
      opts' = optsFedSaved \<and>
      emitted initWorld w' =
        [LogPrint ''Load kubeconfig from %s'', LoadKubeconfig (save optsFedSaved),
         ExtractExtract (extract' optsFedSaved)])"
proof -
  obtain e1 o1 w1 where
    r1: "acquireKubernetes envOK (optsRestore, initWorld) = (e1, o1, w1)"
    using prod_cases3 by blast
  obtain e2 o2 w2 where
    r2: "acquireKubernetes envOK (optsFedSaved, initWorld) = (e2, o2, w2)"
    using prod_cases3 by blast
  have s1: "save optsRestore \<noteq> []" by code_simp
  have x1: "extractEnabled envOK (extract' optsRestore)" by code_simp
  have u1: "\<not> up optsRestore" by code_simp
  have n1: "\<not> stopsEarly envOK optsRestore" by code_simp
  have b1: "\<not> buildEnabled envOK (build optsRestore)" by code_simp
  have g1: "\<not> stageEnabled envOK (stage optsRestore)" by code_simp
  have s2: "save optsFedSaved \<noteq> []" by code_simp
  have x2: "extractEnabled envOK (extract' optsFedSaved)" by code_simp
  have u2: "up optsFedSaved" by code_simp
  have f2: "federation optsFedSaved" by code_simp
  have d2: "deployment optsFedSaved = ''none''" by code_simp
  have n2: "\<not> stopsEarly envOK optsFedSaved" by code_simp
  have b2: "\<not> buildEnabled envOK (build optsFedSaved)" by code_simp
  have g2: "\<not> stageEnabled envOK (stage optsFedSaved)" by code_simp
  have "extract' o1 = [\<lparr>mode = load, option = save optsRestore\<rparr>] \<and>
      emitted initWorld w1 =
        (if buildEnabled envOK (build optsRestore) then [BuildBuild] else []) @
        (if stageEnabled envOK (stage optsRestore) then [StageStage] else []) @
        [LogPrint ''Overwriting extract strategy to load kubeconfig and version from %s'',
         ExtractExtract [\<lparr>mode = load, option = save optsRestore\<rparr>]]"
    using extract_restore_rewrite [OF r1 s1 x1] u1 n1 by blast
  then have c1: "extract' o1 = [\<lparr>mode = load, option = save optsRestore\<rparr>] \<and>
      emitted initWorld w1 =
        [LogPrint ''Overwriting extract strategy to load kubeconfig and version from %s'',
         ExtractExtract [\<lparr>mode = load, option = save optsRestore\<rparr>]]"
    by (simp only: b1 g1 if_False append_Nil)
  have "o2 = optsFedSaved \<and>
      emitted initWorld w2 =
        (if buildEnabled envOK (build optsFedSaved) then [BuildBuild] else []) @
        (if stageEnabled envOK (stage optsFedSaved) then [StageStage] else []) @
        [LogPrint ''Load kubeconfig from %s'', LoadKubeconfig (save optsFedSaved),
         ExtractExtract (extract' optsFedSaved)]"
    using extract_restore_rewrite [OF r2 s2 x2] u2 f2 d2 n2 by blast
  then have c2: "o2 = optsFedSaved \<and>
      emitted initWorld w2 =
        [LogPrint ''Load kubeconfig from %s'', LoadKubeconfig (save optsFedSaved),
         ExtractExtract (extract' optsFedSaved)]"
    by (simp only: b2 g2 if_False append_Nil)
  show ?thesis
    using r1 r2 s1 x1 u1 n1 s2 x2 u2 f2 d2 n2 c1 c2 by blast
qed


section \<open>The duration of the Extract record\<close>

lemma extract_timed_run:
  assumes "save opts \<noteq> []" and "extractEnabled env (extract' opts)"
      and "\<not> stopsEarly env opts"
  shows "case acquireKubernetes env (opts, w) of (err, opts', w') \<Rightarrow>
   (\<not> up opts \<longrightarrow>
      emitted w w' =
        (if buildEnabled env (build opts) then [BuildBuild] else []) @
        (if stageEnabled env (stage opts) then [StageStage] else []) @
        [LogPrint ''Overwriting extract strategy to load kubeconfig and version from %s'',
         ExtractExtract [\<lparr>mode = load, option = save opts\<rparr>]] \<and>
      last (recorded w w') =
        \<lparr>ClassName = className env, Name = ''Extract'',
         Time = takes env
                  (LogPrint
                     ''Overwriting extract strategy to load kubeconfig and version from %s'') +
                takes env (ExtractExtract [\<lparr>mode = load, option = save opts\<rparr>]),
         Failure = (case err of None \<Rightarrow> [] | Some e \<Rightarrow> e)\<rparr>) \<and>
   (up opts \<and> federation opts \<and> deployment opts = ''none'' \<longrightarrow>
      emitted w w' =
        (if buildEnabled env (build opts) then [BuildBuild] else []) @
        (if stageEnabled env (stage opts) then [StageStage] else []) @
        [LogPrint ''Load kubeconfig from %s'', LoadKubeconfig (save opts),
         ExtractExtract (extract' opts)] \<and>
      last (recorded w w') =
        \<lparr>ClassName = className env, Name = ''Extract'',
         Time = takes env (LogPrint ''Load kubeconfig from %s'') +
                takes env (LoadKubeconfig (save opts)) +
                takes env (ExtractExtract (extract' opts)),
         Failure = (case err of None \<Rightarrow> [] | Some e \<Rightarrow> e)\<rparr>)"
  using assms
  apply (cases "buildEnabled env (build opts)"; cases "returns env BuildBuild";
         cases "stageEnabled env (stage opts)"; cases "returns env StageStage";
         cases "returns env (ExtractExtract (extractSpec opts))";
         cases "up opts";
         cases "federation opts \<and> deployment opts = ''none''")
  apply (simp_all add: acquire_defs stopsEarly_def extractSpec_def emitted_def recorded_def)
  done

text \<open>
  The rewrite is made by the function that \<open>xmlWrap\<close> times (line 290): with a log line
  of 2 ticks and an extraction of 3, the Extract record of a restoring run shows 5.
\<close>

theorem rewrite_is_timed_counterexample:
  "emitted initWorld (snd (snd (acquireKubernetes envSlow (optsRestore, initWorld)))) =
     [LogPrint ''Overwriting extract strategy to load kubeconfig and version from %s'',
      ExtractExtract [\<lparr>mode = load, option = ''gs://bucket/state''\<rparr>]] \<and>
   takes envSlow (ExtractExtract [\<lparr>mode = load, option = ''gs://bucket/state''\<rparr>]) = 3 \<and>
   map Time (recorded initWorld (snd (snd (acquireKubernetes envSlow (optsRestore, initWorld))))) =
     [5]"
  by code_simp

text \<open>
  C3, as the code has it. In a run with a save path and the extract strategy enabled
  that Build and Stage do not stop: without \<open>--up\<close> the rewrite comes strictly before the
  execution of the extract strategies, and the duration of the Extract record is the time
  of the rewrite (its log line) plus the time of the execution; with federation, \<open>--up\<close>
  and the deployment \<open>none\<close> the duration of the Extract record is the time of the log
  line, of loading the kubeconfig and of the execution.
\<close>

theorem rewrite_inside_timed_extract:
  assumes "acquireKubernetes env (opts, w) = (err, opts', w')"
      and "save opts \<noteq> []" and "extractEnabled env (extract' opts)"
      and "\<not> stopsEarly env opts"
  shows
   "(\<not> up opts \<longrightarrow>
      emitted w w' =
        (if buildEnabled env (build opts) then [BuildBuild] else []) @
        (if stageEnabled env (stage opts) then [StageStage] else []) @
        [LogPrint ''Overwriting extract strategy to load kubeconfig and version from %s'',
         ExtractExtract [\<lparr>mode = load, option = save opts\<rparr>]] \<and>
      last (recorded w w') =
        \<lparr>ClassName = className env, Name = ''Extract'',
         Time = takes env
                  (LogPrint
                     ''Overwriting extract strategy to load kubeconfig and version from %s'') +
                takes env (ExtractExtract [\<lparr>mode = load, option = save opts\<rparr>]),
         Failure = (case err of None \<Rightarrow> [] | Some e \<Rightarrow> e)\<rparr>) \<and>
    (up opts \<and> federation opts \<and> deployment opts = ''none'' \<longrightarrow>
      emitted w w' =
        (if buildEnabled env (build opts) then [BuildBuild] else []) @
        (if stageEnabled env (stage opts) then [StageStage] else []) @
        [LogPrint ''Load kubeconfig from %s'', LoadKubeconfig (save opts),
         ExtractExtract (extract' opts)] \<and>
      last (recorded w w') =
        \<lparr>ClassName = className env, Name = ''Extract'',
         Time = takes env (LogPrint ''Load kubeconfig from %s'') +
                takes env (LoadKubeconfig (save opts)) +
                takes env (ExtractExtract (extract' opts)),
         Failure = (case err of None \<Rightarrow> [] | Some e \<Rightarrow> e)\<rparr>)"
  using extract_timed_run [OF assms(2,3,4), of w] unfolding assms(1) prod.case .

theorem rewrite_inside_timed_extract_witness:
  "\<exists>err opts' w'.
     acquireKubernetes envSlow (optsRestore, initWorld) = (err, opts', w') \<and>
     save optsRestore \<noteq> [] \<and> extractEnabled envSlow (extract' optsRestore) \<and>
     \<not> stopsEarly envSlow optsRestore \<and> \<not> up optsRestore \<and>
     Time (last (recorded initWorld w')) = 5"
proof -
  obtain e1 o1 w1 where
    r1: "acquireKubernetes envSlow (optsRestore, initWorld) = (e1, o1, w1)"
    using prod_cases3 by blast
  have s1: "save optsRestore \<noteq> []" by code_simp
  have x1: "extractEnabled envSlow (extract' optsRestore)" by code_simp
  have u1: "\<not> up optsRestore" by code_simp
  have n1: "\<not> stopsEarly envSlow optsRestore" by code_simp
  have t1: "takes envSlow
              (LogPrint ''Overwriting extract strategy to load kubeconfig and version from %s'') +
            takes envSlow (ExtractExtract [\<lparr>mode = load, option = save optsRestore\<rparr>]) = 5"
    by code_simp
  have "last (recorded initWorld w1) =
        \<lparr>ClassName = className envSlow, Name = ''Extract'',
         Time = takes envSlow
                  (LogPrint
                     ''Overwriting extract strategy to load kubeconfig and version from %s'') +
                takes envSlow (ExtractExtract [\<lparr>mode = load, option = save optsRestore\<rparr>]),
         Failure = (case e1 of None \<Rightarrow> [] | Some e \<Rightarrow> e)\<rparr>"
    using rewrite_inside_timed_extract [OF r1 s1 x1 n1] u1 by blast
  then have "Time (last (recorded initWorld w1)) = 5"
    by (simp only: t1 testCase.simps)
  then show ?thesis
    using r1 s1 x1 n1 u1 by blast
qed


section \<open>The shape of a run\<close>

lemma emitted_self [simp]: "emitted w w = []"
  by (simp add: emitted_def)

lemma extends_emitted:
  "take (length (trace w)) (trace w') = trace w \<Longrightarrow> trace w' = trace w @ emitted w w'"
  unfolding emitted_def by (metis append_take_drop_id)

lemma emitted_trans:
  "trace w' = trace w @ a \<Longrightarrow> trace w'' = trace w' @ b \<Longrightarrow> emitted w w'' = a @ b"
  by (simp add: emitted_def)

lemma acquire_footprint_run:
  "case acquireKubernetes env (opts, w) of (err, opts', w') \<Rightarrow>
   take (length (trace w)) (trace w') = trace w \<and> list_all isAcquireEvent (emitted w w') \<and>
   deployment opts' = deployment opts \<and> down opts' = down opts \<and> save opts' = save opts \<and>
   up opts' = up opts \<and> federation opts' = federation opts \<and> publish opts' = publish opts \<and>
   dump opts' = dump opts \<and>
   interrupt w' = interrupt w \<and> terminate w' = terminate w \<and> timeout w' = timeout w"
  apply (cases "buildEnabled env (build opts)"; cases "returns env BuildBuild";
         cases "stageEnabled env (stage opts)"; cases "returns env StageStage";
         cases "extractEnabled env (extract' opts)";
         cases "returns env (ExtractExtract (extractSpec opts))";
         cases "save opts = []"; cases "up opts";
         cases "federation opts \<and> deployment opts = ''none''")
  apply (simp_all add: acquire_defs extractSpec_def emitted_def)
  done

lemma getDeployer_footprint_run:
  "case getDeployer env name w of (r, w') \<Rightarrow>
   take (length (trace w)) (trace w') = trace w \<and>
   list_all isSetupEvent (emitted w w') \<and>
   interrupt w' = interrupt w \<and> terminate w' = terminate w \<and> timeout w' = timeout w \<and>
   suite w' = suite w"
  apply (cases "returns env NewKops"; cases "returns env NewKubernetesAnywhere")
  apply (simp_all add: getDeployer_def call_def emitted_def)
  done

lemma isAcquire_isSetup: "list_all isAcquireEvent es \<Longrightarrow> list_all isSetupEvent es"
proof (induction es)
  case Nil
  show ?case by simp
next
  case (Cons e es)
  then show ?case by (cases e) simp_all
qed

lemma completeSetup_run:
  "case completeSetup env (opts, w) of (r, opts', w') \<Rightarrow>
     trace w' = trace w @ emitted w w' \<and> list_all isSetupEvent (emitted w w') \<and>
     deployment opts' = deployment opts \<and> down opts' = down opts \<and> save opts' = save opts \<and>
     up opts' = up opts \<and> federation opts' = federation opts \<and>
     publish opts' = publish opts \<and> dump opts' = dump opts \<and>
     interrupt w' = interrupt w \<and> terminate w' = terminate w \<and> timeout w' = timeout w"
proof -
  obtain aerr aopts aw where
    A: "acquireKubernetes env (opts, happen env Prepare w) = (aerr, aopts, aw)"
    using prod_cases3 by blast
  obtain r gw where
    G: "getDeployer env (deployment opts) (happen env ValidWorkingDirectory aw) = (r, gw)"
    by fastforce
  note fa = acquire_footprint_run [where env = env and opts = opts and w = "happen env Prepare w",
      unfolded A prod.case]
  note fg = getDeployer_footprint_run [where env = env and name = "deployment opts"
      and w = "happen env ValidWorkingDirectory aw", unfolded G prod.case]
  define ea where "ea = emitted (happen env Prepare w) aw"
  define eg where "eg = emitted (happen env ValidWorkingDirectory aw) gw"
  have ta: "trace aw = trace w @ Prepare # ea"
    using fa extends_emitted [of "happen env Prepare w" aw] by (simp add: ea_def)
  have tg: "trace gw = trace w @ Prepare # ea @ ValidWorkingDirectory # eg"
    using fg ta extends_emitted [of "happen env ValidWorkingDirectory aw" gw]
    by (simp add: eg_def)
  have sa: "list_all isSetupEvent ea"
    using fa isAcquire_isSetup by (simp add: ea_def)
  have sg: "list_all isSetupEvent eg"
    using fg by (simp add: eg_def)
  show ?thesis
    apply (cases "returns env Prepare"; cases aerr; cases "returns env ValidWorkingDirectory";
           cases r)
    apply (simp_all add: completeSetup_def call_def A G ta tg sa sg fa fg emitted_def)
    done
qed


lemma registerWatcher_run:
  "trace (registerWatcher env opts deploy w) =
     trace w @ (if down opts then [SignalNotify, GoWatcher deploy] else [])"
  "interrupt (registerWatcher env opts deploy w) = interrupt w"
  "terminate (registerWatcher env opts deploy w) = terminate w"
  "timeout (registerWatcher env opts deploy w) = timeout w"
  by (simp_all add: registerWatcher_def)

lemma runSavePublish_run:
  "case runSavePublish env opts deploy w of (err, w') \<Rightarrow>
     trace w' = trace w @ emitted w w' \<and>
     emitted w w' =
       [LogPrint ''before run(deploy, *o)'', Run deploy] @
       (if returns env (Run deploy) \<noteq> None then []
        else LogPrint ''after run(deploy, *o)'' #
             (if saveWanted opts then [SaveState (save opts)] else []) @
             (if saveWanted opts \<and> returns env (SaveState (save opts)) \<noteq> None then []
              else if publish opts \<noteq> [] then [Publish (publish opts)] else [])) \<and>
     interrupt w' = interrupt w \<and> terminate w' = terminate w \<and> timeout w' = timeout w"
  apply (cases "returns env (Run deploy)"; cases "returns env (SaveState (save opts))";
         cases "returns env (Publish (publish opts))"; cases "saveWanted opts";
         cases "publish opts = []")
  apply (simp_all add: runSavePublish_def call_def Let_def emitted_def)
  apply (auto simp add: saveWanted_def)
  done


lemma completeBody_run:
  "case completeBody env (opts, w) of (err, opts', w') \<Rightarrow>
     (\<exists>pre tl. trace w' = trace w @ pre @ tl \<and> list_all isSetupEvent pre \<and>
        (tl = [] \<and> err \<noteq> None \<or>
         (\<exists>d. tl = tailEvents env opts d))) \<and>
     dump opts' = dump opts \<and> federation opts' = federation opts \<and>
     interrupt w' = interrupt w \<and> terminate w' = terminate w \<and> timeout w' = timeout w"
proof -
  obtain r sopts sw where S: "completeSetup env (opts, w) = (r, sopts, sw)"
    using prod_cases3 by blast
  note fs = completeSetup_run [where env = env and opts = opts and w = w, unfolded S prod.case]
  show ?thesis
  proof (cases r)
    case (Inl e)
    have "trace sw = trace w @ emitted w sw @ []" using fs by simp
    then show ?thesis using Inl S fs by (auto simp: completeBody_def)
  next
    case (Inr d)
    obtain err w' where
      R: "runSavePublish env sopts d (registerWatcher env sopts d sw) = (err, w')"
      by fastforce
    note fr = runSavePublish_run [where env = env and opts = sopts and deploy = d
        and w = "registerWatcher env sopts d sw", unfolded R prod.case]
    have sw: "saveWanted sopts = saveWanted opts"
      using fs by (simp add: saveWanted_def)
    have t: "trace w' = trace w @ emitted w sw @
               ((if down opts then [SignalNotify, GoWatcher d] else []) @
                emitted (registerWatcher env sopts d sw) w')"
      using fr fs by (simp add: registerWatcher_run)
    have E: "emitted (registerWatcher env sopts d sw) w' =
            [LogPrint ''before run(deploy, *o)'', Run d] @
            (if returns env (Run d) \<noteq> None then []
             else LogPrint ''after run(deploy, *o)'' #
                  (if saveWanted sopts then [SaveState (save sopts)] else []) @
                  (if saveWanted sopts \<and> returns env (SaveState (save sopts)) \<noteq> None then []
                   else if publish sopts \<noteq> [] then [Publish (publish sopts)] else []))"
      using fr by blast
    have f: "save sopts = save opts" "publish sopts = publish opts"
      using fs by blast+
    have tl: "(if down opts then [SignalNotify, GoWatcher d] else []) @
                emitted (registerWatcher env sopts d sw) w' = tailEvents env opts d"
      unfolding E sw f tailEvents_def by (rule refl)
    have body: "completeBody env (opts, w) = (err, sopts, w')"
      using S Inr R by (simp add: completeBody_def)
    have "\<exists>pre tl. trace w' = trace w @ pre @ tl \<and> list_all isSetupEvent pre \<and>
        (tl = [] \<and> err \<noteq> None \<or>
         (\<exists>d. tl = tailEvents env opts d))"
      using t tl fs by blast
    then show ?thesis
      unfolding body prod.case using fs fr by (simp add: registerWatcher_run)
  qed
qed


lemma handleSignal_run:
  "case handleSignal env opts deploy w of (out, w') \<Rightarrow>
     trace w' = trace w @ emitted w w' \<and>
     filter isTeardown (emitted w w') =
       (if federation opts then [FedDown] else []) @ [Down deploy] \<and>
     out = (if teardownFails env opts deploy then Exited 1 else Returned ()) \<and>
     (teardownFails env opts deploy \<longrightarrow> last (emitted w w') = OsExit 1)"
  apply (cases "federation opts"; cases "returns env FedDown"; cases "returns env (Down deploy)")
  apply (simp_all add: handleSignal_def call_def Let_def teardownFails_def emitted_def)
  done

lemma count_filter_teardown:
  "count_list (filter isTeardown xs) (Down deploy) = count_list xs (Down deploy)"
  by (induction xs) auto

lemma watcher_run:
  "case watcher envs opts deploy w of (out, w') \<Rightarrow>
     trace w' = trace w @ emitted w w' \<and>
     out = (if \<exists>env \<in> set envs. teardownFails env opts deploy then Exited 1 else Blocked) \<and>
     count_list (emitted w w') (Down deploy) = handled envs opts deploy"
proof (induction envs arbitrary: w)
  case Nil
  show ?case by simp
next
  case (Cons env envs)
  obtain out1 w1 where h: "handleSignal env opts deploy w = (out1, w1)"
    by fastforce
  note hs = handleSignal_run [where env = env and opts = opts and deploy = deploy and w = w,
      unfolded h prod.case]
  have "count_list (filter isTeardown (emitted w w1)) (Down deploy) = 1"
    using hs by simp
  then have c1: "count_list (emitted w w1) (Down deploy) = 1"
    by (simp add: count_filter_teardown)
  show ?case
  proof (cases "teardownFails env opts deploy")
    case True
    then show ?thesis using hs c1 h by simp
  next
    case False
    obtain out2 w2 where r: "watcher envs opts deploy w1 = (out2, w2)"
      by fastforce
    note ih = Cons.IH [where w = w1, unfolded r prod.case]
    have e: "emitted w w2 = emitted w w1 @ emitted w1 w2"
      using hs ih by (intro emitted_trans) auto
    have t: "trace w2 = trace w @ emitted w w2"
      using hs ih e by simp
    show ?thesis using False hs ih h r e t c1 by simp
  qed
qed

lemma setup_not_tail:
  assumes "list_all isSetupEvent pre"
  shows "SaveState p \<notin> set pre" "LogPrint ''after run(deploy, *o)'' \<notin> set pre"
    "LogPrint ''before run(deploy, *o)'' \<notin> set pre" "SignalNotify \<notin> set pre"
    "GoWatcher d \<notin> set pre"
  using assms by (auto simp: list_all_iff)

section \<open>Saving the state\<close>

text \<open>
  With a save path, federation, \<open>--up\<close>, \<open>--down\<close> and the deployment \<open>none\<close> the run
  body completes and the state is not saved; with a save path, \<open>--up\<close>, \<open>--down\<close>, no
  federation and the deployment \<open>bash\<close> it is saved.
\<close>

theorem saveState_counterexample:
  "save optsFedDown \<noteq> [] \<and> federation optsFedDown \<and> up optsFedDown \<and>
   deployment optsFedDown = ''none'' \<and>
   emitted initWorld (snd (snd (completeBody envOK (optsFedDown, initWorld)))) =
     [Prepare, LogPrint ''Load kubeconfig from %s'', LoadKubeconfig ''gs://bucket/state'',
      ExtractExtract [\<lparr>mode = release_archive, option = ''v1.6.0''\<rparr>],
      ValidWorkingDirectory, SignalNotify, GoWatcher NoneDeploy,
      LogPrint ''before run(deploy, *o)'', Run NoneDeploy,
      LogPrint ''after run(deploy, *o)''] \<and>
   \<not> (up optsUpDownSaved \<and> \<not> down optsUpDownSaved) \<and> \<not> federation optsUpDownSaved \<and>
   emitted initWorld (snd (snd (completeBody envOK (optsUpDownSaved, initWorld)))) =
     [Prepare, ExtractExtract [\<lparr>mode = release_archive, option = ''v1.6.0''\<rparr>],
      ValidWorkingDirectory, SignalNotify, GoWatcher Bash,
      LogPrint ''before run(deploy, *o)'', Run Bash,
      LogPrint ''after run(deploy, *o)'', SaveState ''gs://bucket/state'']"
  by code_simp

text \<open>
  C1, as the code has it: \<open>saveState\<close> is invoked exactly when the run body has
  completed without error, a save path is configured, and either the cluster was brought
  up without being torn down (\<open>up\<close> and not \<open>down\<close>) or the clusters were brought up
  without the federation control plane (\<open>up\<close>, not \<open>federation\<close>, and a deployment
  other than \<open>none\<close>); it is then invoked on the save path.
\<close>

theorem saveState_iff:
  assumes "completeBody env (opts, w) = (err, opts', w')"
  shows "(SaveState p \<in> set (emitted w w')) =
     (LogPrint ''after run(deploy, *o)'' \<in> set (emitted w w') \<and> p = save opts \<and>
      save opts \<noteq> [] \<and>
      ((up opts \<and> \<not> down opts) \<or>
       (\<not> federation opts \<and> up opts \<and> deployment opts \<noteq> ''none'')))"
proof -
  from completeBody_run [where env = env and opts = opts and w = w, unfolded assms prod.case]
  obtain pre tl where
    t: "trace w' = trace w @ pre @ tl" and p: "list_all isSetupEvent pre" and
    tl: "tl = [] \<and> err \<noteq> None \<or>
         (\<exists>d. tl = tailEvents env opts d)"
    by blast
  have e: "emitted w w' = pre @ tl"
    using t by (simp add: emitted_def)
  note np = setup_not_tail [OF p]
  from tl show ?thesis
  proof
    assume "tl = [] \<and> err \<noteq> None"
    then show ?thesis using e np by simp
  next
    assume "\<exists>d. tl = tailEvents env opts d"
    then obtain d where "tl = tailEvents env opts d"
      by blast
    then show ?thesis using e np by (auto simp: saveWanted_def tailEvents_def)
  qed
qed

theorem saveState_iff_witness:
  "SaveState ''gs://bucket/state'' \<in>
     set (emitted initWorld (snd (snd (completeBody envOK (optsUpSaved, initWorld)))))"
proof -
  obtain err opts' w' where
    run: "completeBody envOK (optsUpSaved, initWorld) = (err, opts', w')"
    using prod_cases3 by blast
  have "LogPrint ''after run(deploy, *o)'' \<in>
          set (emitted initWorld (snd (snd (completeBody envOK (optsUpSaved, initWorld)))))"
    by code_simp
  then have a: "LogPrint ''after run(deploy, *o)'' \<in> set (emitted initWorld w')"
    using run by simp
  have b: "''gs://bucket/state'' = save optsUpSaved \<and> save optsUpSaved \<noteq> [] \<and>
           up optsUpSaved \<and> \<not> down optsUpSaved"
    by code_simp
  have "SaveState ''gs://bucket/state'' \<in> set (emitted initWorld w')"
    using saveState_iff [OF run, of "''gs://bucket/state''"] a b by blast
  then show ?thesis using run by simp
qed

section \<open>The teardown watcher on signals\<close>

text \<open>
  Two signals whose teardowns succeed: the teardown runs twice, and the watcher neither
  exits nor stops listening.
\<close>

theorem watcher_second_signal_counterexample:
  "down optsUpDown \<and>
   fst (watcher [envOK, envOK] optsUpDown Bash initWorld) = Blocked \<and>
   emitted initWorld (snd (watcher [envOK, envOK] optsUpDown Bash initWorld)) =
     [LogPrint ''Captured ^C, gracefully attempting to cleanup resources..'', Down Bash,
      LogPrint ''Captured ^C, gracefully attempting to cleanup resources..'', Down Bash]"
  by code_simp

lemma handled_all: "\<forall>env \<in> set envs. \<not> teardownFails env opts deploy \<Longrightarrow>
   handled envs opts deploy = length envs"
  by (induction envs) simp_all

text \<open>
  C4, as the code has it: while it runs, the watcher tears down once for every interrupt
  signal it receives, so a second signal enters the teardown path again; it ends the
  process, with status 1, exactly when a teardown has failed, and after teardowns that
  succeeded it does not exit but waits for the next signal.
\<close>

theorem watcher_handles_every_signal:
  assumes "watcher envs opts deploy w = (out, w')"
  shows "count_list (emitted w w') (Down deploy) = handled envs opts deploy \<and>
         out = (if \<exists>env \<in> set envs. teardownFails env opts deploy then Exited 1 else Blocked) \<and>
         ((\<forall>env \<in> set envs. \<not> teardownFails env opts deploy) \<longrightarrow>
            count_list (emitted w w') (Down deploy) = length envs)"
  using watcher_run [where envs = envs and opts = opts and deploy = deploy and w = w,
      unfolded assms prod.case] handled_all [of envs opts deploy]
  by simp

theorem watcher_handles_every_signal_witness:
  "\<not> teardownFails envOK optsUpDown Bash \<and>
   count_list (emitted initWorld (snd (watcher [envOK, envOK] optsUpDown Bash initWorld)))
     (Down Bash) = 2 \<and>
   fst (watcher [envOK, envOK] optsUpDown Bash initWorld) = Blocked"
proof -
  obtain out w' where run: "watcher [envOK, envOK] optsUpDown Bash initWorld = (out, w')"
    by fastforce
  have ok: "\<not> teardownFails envOK optsUpDown Bash"
    by code_simp
  then have all: "\<forall>env \<in> set [envOK, envOK]. \<not> teardownFails env optsUpDown Bash"
    by simp
  show ?thesis
    using watcher_handles_every_signal [OF run] all ok run by simp
qed



section \<open>The deferred writers\<close>

lemma isSetup_not_writer: "isSetupEvent e \<Longrightarrow> \<not> isWriterEvent e"
  by (cases e) auto

lemma filter_writer_setup: "list_all isSetupEvent pre \<Longrightarrow> filter isWriterEvent pre = []"
  by (induction pre) (auto simp: isSetup_not_writer)

lemma filter_writer_tail: "filter isWriterEvent (tailEvents env opts d) = []"
  by (simp add: tailEvents_def)

lemma completeBody_no_writer:
  assumes "completeBody env (opts, w) = (err, opts', w')"
  shows "trace w' = trace w @ emitted w w' \<and> filter isWriterEvent (emitted w w') = [] \<and>
         dump opts' = dump opts"
proof -
  from completeBody_run [where env = env and opts = opts and w = w, unfolded assms prod.case]
  obtain pre tl where
    t: "trace w' = trace w @ pre @ tl" and p: "list_all isSetupEvent pre" and
    tl: "tl = [] \<and> err \<noteq> None \<or> (\<exists>d. tl = tailEvents env opts d)" and
    d: "dump opts' = dump opts"
    by blast
  have e: "emitted w w' = pre @ tl"
    using t by (simp add: emitted_def)
  have "filter isWriterEvent tl = []"
    using tl filter_writer_tail by auto
  then show ?thesis
    using e t d filter_writer_setup [OF p] by simp
qed

lemma completeTimers_trace:
  "completeTimers env w = Some w1 \<Longrightarrow>
   trace w1 = trace w @ (if timeout w > 0 then [LogPrint ''Limiting testing to %s''] else [])"
  by (auto simp: completeTimers_def split: option.splits if_splits)

lemma writeXML_run:
  assumes "\<forall>s. returns env (XmlMarshalIndent s) = None"
      and "returns env (OsCreate dir ''junit_runner.xml'') = None"
      and "\<forall>c. returns env (FileWrite dir ''junit_runner.xml'' c) = None"
  shows "case writeXML env dir start w of (out, w') \<Rightarrow>
     out = Returned () \<and>
     suite w' = (suite w)\<lparr>SuiteTime := now w - start\<rparr> \<and>
     trace w' = trace w @
       [XmlMarshalIndent (suite w'), OsCreate dir ''junit_runner.xml'',
        FileWrite dir ''junit_runner.xml'' XmlHeader,
        FileWrite dir ''junit_runner.xml'' (XmlBody (suite w')),
        LogPrint ''Saved XML output to %s.'', FileClose dir ''junit_runner.xml'']"
  using assms by (simp add: writeXML_def call_def Let_def)

lemma writeMetadata_run:
  assumes "metadataLoop env (environ env)
             (AList.update ''job-version'' (version env)
                (AList.update ''version'' (version env) [])) = Some m"
      and "returns env (OsCreate dir ''metadata.json'') = None"
      and "returns env (FileWrite dir ''metadata.json'' (JsonDoc m)) = None"
  shows "case writeMetadata env dir w of (out, w') \<Rightarrow>
     out = Returned None \<and> suite w' = suite w \<and>
     trace w' = trace w @
       [FindVersion, OsCreate dir ''metadata.json'',
        FileWrite dir ''metadata.json'' (JsonDoc m), FileClose dir ''metadata.json'']"
  using assms by (simp add: writeMetadata_def call_def Let_def)


lemma completeTimers_fresh:
  assumes "terminate w \<in> {NewTimer 0, fire (NewTimer 0)}"
      and "interrupt w \<in> {NewTimer 0, fire (NewTimer 0)}"
  shows "\<exists>w1. completeTimers env w = Some w1"
  using assms by (simp add: completeTimers_def stopAndDrain_fresh Let_def)

text \<open>
  When the report file cannot be created, \<open>log.Fatalf\<close> in \<open>writeXML\<close> ends the
  process: no document is written, \<open>writeMetadata\<close> is not called, and \<open>complete\<close>
  does not return.
\<close>

theorem report_not_created_counterexample:
  "dump optsDump \<noteq> [] \<and>
   returns envCreateFails (OsCreate (dump optsDump) ''junit_runner.xml'') \<noteq> None \<and>
   fst (complete envCreateFails optsDump firedWorld) = Exited 1 \<and>
   filter isFileEvent
     (emitted firedWorld (snd (snd (complete envCreateFails optsDump firedWorld)))) =
     [OsCreate ''/workspace/_artifacts'' ''junit_runner.xml''] \<and>
   FindVersion \<notin>
     set (emitted firedWorld (snd (snd (complete envCreateFails optsDump firedWorld))))"
  by code_simp

text \<open>
  C7, as the code has it: in a run with an output directory in which the writers' own
  operations succeed (marshalling, creating and writing the two files, and no
  \<open>BUILD_METADATA_\<close> entry without \<open>=\<close> in the environment), whatever the
  preparation, the acquisition, the validation of the working directory, the selection of
  the deployer, the run body, the saving of the state or the publishing return,
  \<open>complete\<close> returns the error of that body after the report and then the metadata have
  each been written exactly once.
\<close>

theorem reports_written_once:
  assumes "terminate w \<in> {NewTimer 0, fire (NewTimer 0)}"
      and "interrupt w \<in> {NewTimer 0, fire (NewTimer 0)}"
      and "dump opts \<noteq> []"
      and "complete env opts w = (out, opts', w')"
      and "\<forall>s. returns env (XmlMarshalIndent s) = None"
      and "returns env (OsCreate (dump opts) ''junit_runner.xml'') = None"
      and "\<forall>c. returns env (FileWrite (dump opts) ''junit_runner.xml'' c) = None"
      and "metadataLoop env (environ env)
             (AList.update ''job-version'' (version env)
                (AList.update ''version'' (version env) [])) = Some m"
      and "returns env (OsCreate (dump opts) ''metadata.json'') = None"
      and "returns env (FileWrite (dump opts) ''metadata.json'' (JsonDoc m)) = None"
  shows "\<exists>w1 err w2.
           completeTimers env w = Some w1 \<and> completeBody env (opts, w1) = (err, opts', w2) \<and>
           out = Returned err \<and>
           filter isWriterEvent (emitted w w') =
             [XmlMarshalIndent (suite w'), OsCreate (dump opts) ''junit_runner.xml'',
              FileWrite (dump opts) ''junit_runner.xml'' XmlHeader,
              FileWrite (dump opts) ''junit_runner.xml'' (XmlBody (suite w')),
              LogPrint ''Saved XML output to %s.'', FileClose (dump opts) ''junit_runner.xml'',
              FindVersion, OsCreate (dump opts) ''metadata.json'',
              FileWrite (dump opts) ''metadata.json'' (JsonDoc m),
              FileClose (dump opts) ''metadata.json'']"
proof -
  obtain w1 where T: "completeTimers env w = Some w1"
    using completeTimers_fresh [OF assms(1,2)] by blast
  note tt = completeTimers_trace [OF T]
  obtain err bopts w2 where B: "completeBody env (opts, w1) = (err, bopts, w2)"
    using prod_cases3 by blast
  note fb = completeBody_no_writer [OF B]
  obtain xo w3 where X: "writeXML env (dump opts) (now w1) w2 = (xo, w3)"
    by fastforce
  note fx = writeXML_run [OF assms(5,6,7), where start = "now w1" and w = w2,
      unfolded X prod.case]
  obtain mo w4 where M: "writeMetadata env (dump opts) w3 = (mo, w4)"
    by fastforce
  note fm = writeMetadata_run [OF assms(8,9,10), where w = w3, unfolded M prod.case]
  have xo: "xo = Returned ()" and mo: "mo = Returned None"
    using fx fm by simp_all
  have C: "complete env opts w = (Returned err, bopts, w4)"
    using T B X M xo mo assms(3) by (simp add: complete_def)
  have o: "out = Returned err" "opts' = bopts" "w' = w4"
    using C assms(4) by simp_all
  have s: "suite w4 = suite w3"
    using fm by simp
  have t3: "trace w3 = trace w2 @
       [XmlMarshalIndent (suite w4), OsCreate (dump opts) ''junit_runner.xml'',
        FileWrite (dump opts) ''junit_runner.xml'' XmlHeader,
        FileWrite (dump opts) ''junit_runner.xml'' (XmlBody (suite w4)),
        LogPrint ''Saved XML output to %s.'', FileClose (dump opts) ''junit_runner.xml'']"
    using fx s by simp
  have t4: "trace w4 = trace w3 @
       [FindVersion, OsCreate (dump opts) ''metadata.json'',
        FileWrite (dump opts) ''metadata.json'' (JsonDoc m),
        FileClose (dump opts) ''metadata.json'']"
    using fm by simp
  have t2: "trace w2 = trace w1 @ emitted w1 w2"
    using fb by simp
  have e: "emitted w w4 =
       (if timeout w > 0 then [LogPrint ''Limiting testing to %s''] else []) @
       emitted w1 w2 @
       [XmlMarshalIndent (suite w4), OsCreate (dump opts) ''junit_runner.xml'',
        FileWrite (dump opts) ''junit_runner.xml'' XmlHeader,
        FileWrite (dump opts) ''junit_runner.xml'' (XmlBody (suite w4)),
        LogPrint ''Saved XML output to %s.'', FileClose (dump opts) ''junit_runner.xml''] @
       [FindVersion, OsCreate (dump opts) ''metadata.json'',
        FileWrite (dump opts) ''metadata.json'' (JsonDoc m),
        FileClose (dump opts) ''metadata.json'']"
    unfolding emitted_def [of w w4] t4 t3 t2 tt by simp
  have f: "filter isWriterEvent (emitted w1 w2) = []"
    using fb by simp
  have "filter isWriterEvent (emitted w w4) =
             [XmlMarshalIndent (suite w4), OsCreate (dump opts) ''junit_runner.xml'',
              FileWrite (dump opts) ''junit_runner.xml'' XmlHeader,
              FileWrite (dump opts) ''junit_runner.xml'' (XmlBody (suite w4)),
              LogPrint ''Saved XML output to %s.'', FileClose (dump opts) ''junit_runner.xml'',
              FindVersion, OsCreate (dump opts) ''metadata.json'',
              FileWrite (dump opts) ''metadata.json'' (JsonDoc m),
              FileClose (dump opts) ''metadata.json'']"
    unfolding e by (simp add: f)
  then show ?thesis
    using T B o by simp
qed


theorem reports_written_once_witness:
  "\<exists>out opts' w'.
     complete envPrepareFails optsDump firedWorld = (out, opts', w') \<and>
     dump optsDump \<noteq> [] \<and>
     out = Returned (Some ''failed to prepare test environment: PROJECT is not set'') \<and>
     filter isWriterEvent (emitted firedWorld w') =
       [XmlMarshalIndent (suite w'), OsCreate (dump optsDump) ''junit_runner.xml'',
        FileWrite (dump optsDump) ''junit_runner.xml'' XmlHeader,
        FileWrite (dump optsDump) ''junit_runner.xml'' (XmlBody (suite w')),
        LogPrint ''Saved XML output to %s.'', FileClose (dump optsDump) ''junit_runner.xml'',
        FindVersion, OsCreate (dump optsDump) ''metadata.json'',
        FileWrite (dump optsDump) ''metadata.json''
          (JsonDoc [(''version'', ''v1.6.0''), (''job-version'', ''v1.6.0''),
                    (''repo'', ''k8s'')]),
        FileClose (dump optsDump) ''metadata.json'']"
proof -
  obtain out opts' w' where
    run: "complete envPrepareFails optsDump firedWorld = (out, opts', w')"
    using prod_cases3 by blast
  have h1: "terminate firedWorld \<in> {NewTimer 0, fire (NewTimer 0)}"
    by (simp add: firedWorld_def initWorld_def)
  have h2: "interrupt firedWorld \<in> {NewTimer 0, fire (NewTimer 0)}"
    by (simp add: firedWorld_def initWorld_def)
  have h3: "dump optsDump \<noteq> []"
    by code_simp
  have h5: "\<forall>s. returns envPrepareFails (XmlMarshalIndent s) = None"
    by (simp add: envPrepareFails_def envFail_def envOK_def)
  have h6: "returns envPrepareFails (OsCreate (dump optsDump) ''junit_runner.xml'') = None"
    by (simp add: envPrepareFails_def envFail_def envOK_def)
  have h7: "\<forall>c. returns envPrepareFails (FileWrite (dump optsDump) ''junit_runner.xml'' c) = None"
    by (simp add: envPrepareFails_def envFail_def envOK_def)
  have h8: "metadataLoop envPrepareFails (environ envPrepareFails)
             (AList.update ''job-version'' (version envPrepareFails)
                (AList.update ''version'' (version envPrepareFails) [])) =
            Some [(''version'', ''v1.6.0''), (''job-version'', ''v1.6.0''), (''repo'', ''k8s'')]"
    by code_simp
  have h9: "returns envPrepareFails (OsCreate (dump optsDump) ''metadata.json'') = None"
    by (simp add: envPrepareFails_def envFail_def envOK_def)
  have h10: "returns envPrepareFails
               (FileWrite (dump optsDump) ''metadata.json''
                  (JsonDoc [(''version'', ''v1.6.0''), (''job-version'', ''v1.6.0''),
                            (''repo'', ''k8s'')])) = None"
    by (simp add: envPrepareFails_def envFail_def envOK_def)
  have r: "fst (complete envPrepareFails optsDump firedWorld) =
           Returned (Some ''failed to prepare test environment: PROJECT is not set'')"
    by code_simp
  then have o: "out = Returned (Some ''failed to prepare test environment: PROJECT is not set'')"
    using run by simp
  show ?thesis
    using reports_written_once [OF h1 h2 h3 run h5 h6 h7 h8 h9 h10] run h3 o by blast
qed

end
